theory Spec2Isabelle
  imports Complex_Main
begin

section \<open>Python values shared by the three scripts\<close>

text \<open>
  Text is a \<^typ>\<open>string\<close>; a character of an input line is read as a code point below 256.
  Python's \<open>str(n)\<close> of an integer is its decimal numeral, with a minus sign when negative.
\<close>

definition digit_char :: "nat \<Rightarrow> char" where
  "digit_char d = ''0123456789'' ! (d mod 10)"

fun str_nat :: "nat \<Rightarrow> string" where
  "str_nat n = (if n < 10 then [digit_char n] else str_nat (n div 10) @ [digit_char (n mod 10)])"

declare str_nat.simps [simp del]

definition str_int :: "int \<Rightarrow> string" where
  "str_int i = (if i < 0 then CHR ''-'' # str_nat (nat (- i)) else str_nat (nat i))"

text \<open>\<open>range(n)\<close>: the integers from 0 up to \<open>n - 1\<close>, none when \<open>n \<le> 0\<close>.\<close>

definition range_py :: "int \<Rightarrow> int list" where
  "range_py n = [0..n - 1]"

section \<open>tool\_agent\_template.py: the tools\<close>

text \<open>
  The numeric tools take and return Python floats; they are modelled over the rationals,
  the exact arithmetic the float operations approximate. Python's \<open>a * b / c\<close> is
  \<open>(a * b) / c\<close>. The tools \<open>get_current_time\<close> and \<open>get_current_datetime\<close>
  return the formatted reading of the clock and are not modelled.
\<close>

definition calculate_area :: "rat \<Rightarrow> rat \<Rightarrow> rat" where
  "calculate_area length' width = length' * width"

definition convert_temperature :: "rat \<Rightarrow> bool \<Rightarrow> rat" where
  "convert_temperature celsius to_fahrenheit =
     (if to_fahrenheit then (celsius * 9 / 5) + 32 else (celsius - 32) * 5 / 9)"

text \<open>The default of the parameter \<open>to_fahrenheit\<close>, used when the caller leaves it out.\<close>

definition to_fahrenheit_default :: bool where
  "to_fahrenheit_default = True"

text \<open>
  A search result is a dict with the keys \<open>title\<close> and \<open>snippet\<close>, in this order: an
  association list.
\<close>

type_synonym result_dict = "(string \<times> string) list"

definition search_result :: "string \<Rightarrow> int \<Rightarrow> result_dict" where
  "search_result query i =
     [(''title'', ''Result '' @ str_int (i + 1) @ '' for '' @ [CHR 0x27] @ query @ [CHR 0x27]),
      (''snippet'', ''This is a sample result for your search query.'')]"

definition search_mock :: "string \<Rightarrow> int \<Rightarrow> result_dict list" where
  "search_mock query max_results = map (search_result query) (range_py (min max_results 3))"

definition max_results_default :: int where
  "max_results_default = 5"

text \<open>The mock fetch: the awaited delay changes no value and is left out.\<close>

definition async_fetch_data :: "string \<Rightarrow> string" where
  "async_fetch_data url = ''Mock data from '' @ url"

section \<open>Exceptions, console and the external framework\<close>

text \<open>
  The scripts raise nothing themselves; every exception comes out of a call they make
  (\<open>input\<close>, \<open>eval\<close>, the agent framework). \<open>Exception\<close> stands for any subclass of
  Python's \<open>Exception\<close> other than \<open>EOFError\<close> and carries \<open>str(e)\<close>;
  \<open>OtherBaseException\<close> stands for the remaining subclasses of \<open>BaseException\<close>
  (\<open>SystemExit\<close>, a cancelled task).
\<close>

datatype exn = Exception string | EOFError string | KeyboardInterrupt | OtherBaseException

text \<open>
  What an \<open>except Exception as e\<close> clause sees: \<open>str(e)\<close> when the clause catches
  the exception, nothing otherwise.
\<close>

fun as_Exception :: "exn \<Rightarrow> string option" where
  "as_Exception (Exception msg) = Some msg"
| "as_Exception (EOFError msg) = Some msg"
| "as_Exception KeyboardInterrupt = None"
| "as_Exception OtherBaseException = None"

text \<open>
  A run is observed through its effects in order: the pieces of text written to the
  console, the traceback dump, and the calls made to the framework (the client
  constructor, \<open>create_agent\<close> with the agent's name, \<open>agent.run\<close> and
  \<open>agent.run_stream\<close> with the message).
\<close>

datatype effect =
    Write string
  | Traceback
  | ConstructClient
  | CreateAgent string
  | Run string
  | RunStream string

text \<open>\<open>print(s)\<close> writes \<open>s\<close> and a newline.\<close>

definition print :: "string \<Rightarrow> effect" where
  "print s = Write (s @ ''\<newline>'')"

text \<open>Glyphs beyond code point 255 are written as the bytes of their UTF-8 encoding.\<close>

definition check_mark :: string where
  "check_mark = [CHR 0xE2, CHR 0x9C, CHR 0x93]"

definition bullet :: string where
  "bullet = [CHR 0xE2, CHR 0x80, CHR 0xA2]"

text \<open>
  The framework is a parameter of every script. A tool as the agent lists it is its name
  and description; the result of \<open>agent.run\<close> is its text and its tool calls (name and
  printed arguments); \<open>agent.run_stream\<close> delivers the text of its chunks and then ends
  normally or with an exception. Each call on an agent also returns the agent as the call
  left it.
\<close>

type_synonym tool = "string \<times> string"

type_synonym run_result = "string \<times> (string \<times> string) list"

record ('client, 'agent) sdk =
  AzureOpenAIChatClient :: "exn + 'client"
  create_agent :: "'client \<Rightarrow> string \<Rightarrow> string \<Rightarrow> string list option \<Rightarrow> exn + 'agent"
  agent_tools :: "'agent \<Rightarrow> tool list"
  agent_run :: "'agent \<Rightarrow> string \<Rightarrow> (exn + run_result) \<times> 'agent"
  agent_run_stream :: "'agent \<Rightarrow> string \<Rightarrow> (string list \<times> exn option) \<times> 'agent"

text \<open>
  The process environment \<open>os.environ\<close>; \<open>not os.environ.get(k)\<close> holds when the
  variable is unset or set to the empty string.
\<close>

type_synonym environ = "string \<rightharpoonup> string"

definition truthy :: "string option \<Rightarrow> bool" where
  "truthy v = (case v of None \<Rightarrow> False | Some s \<Rightarrow> s \<noteq> [])"

section \<open>conversation\_loop.py\<close>

subsection \<open>String methods\<close>

text \<open>
  \<open>str.isspace\<close>, \<open>str.lower\<close> and \<open>str.strip\<close> on code points below 256: the
  whitespace characters are 9 to 13, 28 to 32, 133 and 160; the upper-case letters are
  A to Z and 192 to 222 except 215, each 32 below its lower-case letter.
\<close>

definition isspace :: "char \<Rightarrow> bool" where
  "isspace c = (let n = (of_char c :: nat)
                in (9 \<le> n \<and> n \<le> 13) \<or> (28 \<le> n \<and> n \<le> 32) \<or> n = 133 \<or> n = 160)"

definition lower_char :: "char \<Rightarrow> char" where
  "lower_char c = (let n = (of_char c :: nat)
                   in if (65 \<le> n \<and> n \<le> 90) \<or> (192 \<le> n \<and> n \<le> 222 \<and> n \<noteq> 215)
                      then char_of (n + 32) else c)"

definition lower :: "string \<Rightarrow> string" where
  "lower s = map lower_char s"

definition strip :: "string \<Rightarrow> string" where
  "strip s = rev (dropWhile isspace (rev (dropWhile isspace s)))"

definition startswith :: "string \<Rightarrow> string \<Rightarrow> bool" where
  "startswith s prefix = (take (length prefix) s = prefix)"

subsection \<open>The calculator tool\<close>

text \<open>
  \<open>eval\<close> is Python's; it is a parameter that maps the state of the world and the
  expression to the printed result or the exception raised, and to the state of the world
  it leaves, so that a call of \<open>eval\<close> shows in the returned state.
\<close>

definition allowed_chars :: "char set" where
  "allowed_chars = set ''0123456789+-*/(). ''"

definition calculate ::
  "('w \<Rightarrow> string \<Rightarrow> (exn + string) \<times> 'w) \<Rightarrow> 'w \<Rightarrow> string \<Rightarrow> (exn + string) \<times> 'w" where
  "calculate eval w expression =
     (if \<not> list_all (\<lambda>c. c \<in> allowed_chars) expression
      then (Inr ''Error: Expression contains invalid characters'', w)
      else (case eval w expression of
              (Inr result, w') \<Rightarrow> (Inr (expression @ '' = '' @ result), w')
            | (Inl e, w') \<Rightarrow>
                (case as_Exception e of
                   Some msg \<Rightarrow> (Inr (''Error calculating: '' @ msg), w')
                 | None \<Rightarrow> (Inl e, w'))))"

subsection \<open>The class ConversationLoop\<close>

record 'agent ConversationLoop =
  agent :: 'agent
  conversation_count :: int

definition init :: "'agent \<Rightarrow> 'agent ConversationLoop" where
  "init a = \<lparr>agent = a, conversation_count = 0\<rparr>"

definition print_welcome :: "effect list" where
  "print_welcome =
     [print (''\<newline>'' @ replicate 60 (CHR ''='')),
      print ''Microsoft Agent Framework - Interactive Conversation'',
      print (replicate 60 (CHR ''='')),
      print ''\<newline>Commands:'',
      print ''  /help  - Show this help message'',
      print ''  /clear - Clear conversation history and start fresh'',
      print ''  /tools - Show available tools'',
      print ''  /quit  - Exit the conversation'',
      print ''\<newline>Type your message and press Enter to chat with the agent.'',
      print (replicate 60 (CHR ''='') @ ''\<newline>'')]"

definition print_help :: "effect list" where
  "print_help =
     [print ''\<newline>Available commands:'',
      print ''  /help  - Show this help message'',
      print ''  /clear - Clear conversation history'',
      print ''  /tools - Show available tools'',
      print ''  /quit  - Exit the conversation\<newline>'']"

definition show_tools :: "('client, 'agent) sdk \<Rightarrow> 'agent ConversationLoop \<Rightarrow> effect list" where
  "show_tools sdk self =
     (if agent_tools sdk (agent self) = []
      then [print ''\<newline>No tools available for this agent.\<newline>'']
      else [print (''\<newline>Available tools ('' @ str_int (int (length (agent_tools sdk (agent self)))) @ ''):'')]
           @ map (\<lambda>(name, description). print (''  '' @ bullet @ '' '' @ name @ '': '' @ description))
               (agent_tools sdk (agent self))
           @ [print []])"

definition clear_history :: "'agent ConversationLoop \<Rightarrow> effect list \<times> 'agent ConversationLoop" where
  "clear_history self =
     ([print ''\<newline>[Conversation history cleared]\<newline>''], self\<lparr>conversation_count := 0\<rparr>)"

text \<open>
  One iteration of \<open>while True\<close> ends by going round again, by leaving the loop, or by
  letting an exception out of \<open>run\<close>.
\<close>

datatype control = Continue | Break | Propagate exn

text \<open>
  The two \<open>except\<close> clauses around the loop body, for an exception raised after the
  effects \<open>out\<close>.
\<close>

definition outer_handler ::
  "'agent ConversationLoop \<Rightarrow> effect list \<Rightarrow> exn \<Rightarrow> effect list \<times> control \<times> 'agent ConversationLoop" where
  "outer_handler self out e =
     (case e of
        KeyboardInterrupt \<Rightarrow>
          (out @ [print ''\<newline>\<newline>Use /quit to exit properly.\<newline>''], Continue, self)
      | EOFError _ \<Rightarrow>
          (out @ [print ''\<newline>\<newline>Goodbye! Thanks for chatting.\<newline>''], Break, self)
      | _ \<Rightarrow> (out, Propagate e, self))"

text \<open>
  The loop body, for what \<open>input("You: ")\<close> does in this iteration: it returns a line or
  raises.
\<close>

definition loop_body ::
  "('client, 'agent) sdk \<Rightarrow> 'agent ConversationLoop \<Rightarrow> exn + string
     \<Rightarrow> effect list \<times> control \<times> 'agent ConversationLoop" where
  "loop_body sdk self inp =
     (case inp of
        Inl e \<Rightarrow> outer_handler self [Write ''You: ''] e
      | Inr line \<Rightarrow>
          (let user_input = strip line in
           if user_input = [] then ([Write ''You: ''], Continue, self)
           else if startswith user_input ''/'' then
             (let command = lower user_input in
              if command \<in> set [''/quit'', ''/exit''] then
                ([Write ''You: '', print ''\<newline>Goodbye! Thanks for chatting.\<newline>''], Break, self)
              else if command = ''/help'' then
                (Write ''You: '' # print_help, Continue, self)
              else if command = ''/clear'' then
                (Write ''You: '' # fst (clear_history self), Continue, snd (clear_history self))
              else if command = ''/tools'' then
                (Write ''You: '' # show_tools sdk self, Continue, self)
              else
                ([Write ''You: '', print (''Unknown command: '' @ command),
                  print ''Type /help for available commands.\<newline>''], Continue, self))
           else
             (case agent_run_stream sdk (agent self) user_input of
                ((chunks, ending), a') \<Rightarrow>
                  (let self' = self\<lparr>agent := a'\<rparr>;
                       out = [Write ''You: '', Write ''Agent: '', RunStream user_input] @ map Write chunks
                   in case ending of
                        None \<Rightarrow>
                          (out @ [print [], print []], Continue,
                           self'\<lparr>conversation_count := conversation_count self' + 1\<rparr>)
                      | Some e \<Rightarrow>
                          (case as_Exception e of
                             Some msg \<Rightarrow> (out @ [print (''\<newline>[Error: '' @ msg @ '']'')], Continue, self')
                           | None \<Rightarrow> outer_handler self' out e)))))"

text \<open>
  The \<open>while True\<close> loop over what successive calls of \<open>input\<close> do; when standard
  input is exhausted \<open>input\<close> raises \<open>EOFError\<close>. The result is the effects, the
  exception that left \<open>run\<close> if one did, and the object afterwards.
\<close>

fun run_loop ::
  "('client, 'agent) sdk \<Rightarrow> 'agent ConversationLoop \<Rightarrow> (exn + string) list
     \<Rightarrow> effect list \<times> exn option \<times> 'agent ConversationLoop" where
  "run_loop sdk self [] =
     (case loop_body sdk self (Inl (EOFError ''EOF when reading a line'')) of
        (out, c, self') \<Rightarrow> (out, (case c of Propagate e \<Rightarrow> Some e | _ \<Rightarrow> None), self'))"
| "run_loop sdk self (inp # rest) =
     (case loop_body sdk self inp of
        (out, Continue, self') \<Rightarrow>
          (case run_loop sdk self' rest of (out', r, self'') \<Rightarrow> (out @ out', r, self''))
      | (out, Break, self') \<Rightarrow> (out, None, self')
      | (out, Propagate e, self') \<Rightarrow> (out, Some e, self'))"

definition run ::
  "('client, 'agent) sdk \<Rightarrow> 'agent ConversationLoop \<Rightarrow> (exn + string) list
     \<Rightarrow> effect list \<times> exn option \<times> 'agent ConversationLoop" where
  "run sdk self stdin =
     (case run_loop sdk self stdin of (out, r, self') \<Rightarrow> (print_welcome @ out, r, self'))"

subsection \<open>main and the script\<close>

definition chatbot_instructions :: string where
  "chatbot_instructions =
     ''You are a helpful, friendly assistant.\<newline>\<newline>'' @
     ''Be conversational and engaging. Keep your responses concise but informative.\<newline>'' @
     ''Use your available tools when appropriate to help the user.\<newline>'' @
     ''Remember context from the conversation to provide relevant responses.''"

text \<open>
  \<open>main\<close> of conversation\_loop.py, for the framework, the environment and standard
  input: its effects, and the exit code it returns or the exception that leaves it.
\<close>

definition main_conversation ::
  "('client, 'agent) sdk \<Rightarrow> environ \<Rightarrow> (exn + string) list \<Rightarrow> effect list \<times> (exn + int)" where
  "main_conversation sdk environ stdin =
     (if \<not> truthy (environ ''AZURE_OPENAI_ENDPOINT'') then
        ([print ''Error: AZURE_OPENAI_ENDPOINT environment variable not set'',
          print (''Set it with: export AZURE_OPENAI_ENDPOINT='https://your-resource.openai.azure.com/'' @ [CHR 0x27])],
         Inr 1)
      else if \<not> truthy (environ ''AZURE_OPENAI_DEPLOYMENT_NAME'') then
        ([print ''Error: AZURE_OPENAI_DEPLOYMENT_NAME environment variable not set'',
          print (''Set it with: export AZURE_OPENAI_DEPLOYMENT_NAME='gpt-4o-mini'' @ [CHR 0x27])],
         Inr 1)
      else
        (case AzureOpenAIChatClient sdk of
           Inl e \<Rightarrow>
             (case as_Exception e of
                Some msg \<Rightarrow>
                  ([ConstructClient,
                    print (''Error connecting to Azure OpenAI: '' @ msg),
                    print ''Make sure you've run 'az login' first''],
                   Inr 1)
              | None \<Rightarrow> ([ConstructClient], Inl e))
         | Inr client \<Rightarrow>
             (case create_agent sdk client ''ChatBot'' chatbot_instructions
                     (Some [''get_current_datetime'', ''calculate'']) of
                Inl e \<Rightarrow> ([ConstructClient, CreateAgent ''ChatBot''], Inl e)
              | Inr a \<Rightarrow>
                  (case run sdk (init a) stdin of
                     (out, r, _) \<Rightarrow>
                       ([ConstructClient, CreateAgent ''ChatBot''] @ out,
                        (case r of None \<Rightarrow> Inr 0 | Some e \<Rightarrow> Inl e))))))"

text \<open>
  The \<open>__main__\<close> block of conversation\_loop.py: the effects, and the exit code or the
  exception that no clause catches.
\<close>

definition script_conversation ::
  "('client, 'agent) sdk \<Rightarrow> environ \<Rightarrow> (exn + string) list \<Rightarrow> effect list \<times> (exn + int)" where
  "script_conversation sdk environ stdin =
     (case main_conversation sdk environ stdin of
        (out, Inr exit_code) \<Rightarrow> (out, Inr exit_code)
      | (out, Inl e) \<Rightarrow>
          (case as_Exception e of
             Some msg \<Rightarrow> (out @ [print (''\<newline>Fatal error: '' @ msg), Traceback], Inr 1)
           | None \<Rightarrow> (out, Inl e)))"

section \<open>tool\_agent\_template.py: main and the script\<close>

definition toolbot_instructions :: string where
  "toolbot_instructions =
     ''You are a helpful assistant with access to various tools.\<newline>'' @
     ''        \<newline>'' @
     ''Use your tools to help users with:\<newline>'' @
     ''- Getting the current time\<newline>'' @
     ''- Calculating areas\<newline>'' @
     ''- Converting temperatures\<newline>'' @
     ''- Searching for information\<newline>'' @
     ''- Fetching data from URLs\<newline>'' @
     ''\<newline>'' @
     ''Always use the appropriate tool when the user's request requires it.''"

definition test_queries :: "string list" where
  "test_queries =
     [''What time is it right now?'',
      ''What's the area of a rectangle that's 5 meters by 3 meters?'',
      ''Convert 25 degrees Celsius to Fahrenheit'',
      ''Search for information about Python programming'',
      ''Fetch data from https://example.com/api/data'']"

text \<open>The \<open>for query in test_queries\<close> loop: its effects, and the exception that left it if one did.\<close>

fun run_queries ::
  "('client, 'agent) sdk \<Rightarrow> 'agent \<Rightarrow> string list \<Rightarrow> effect list \<times> exn option" where
  "run_queries sdk a [] = ([], None)"
| "run_queries sdk a (query # rest) =
     (case agent_run sdk a query of
        (Inl e, a') \<Rightarrow> ([print (''\<newline>\<newline>User: '' @ query), Run query], Some e)
      | (Inr (reply, tool_calls), a') \<Rightarrow>
          (case run_queries sdk a' rest of
             (out', r) \<Rightarrow>
               ([print (''\<newline>\<newline>User: '' @ query), Run query, print (''Agent: '' @ reply)]
                @ (if tool_calls \<noteq> []
                   then print ''\<newline>  Tools called:''
                        # map (\<lambda>(name, arguments). print (''    - '' @ name @ ''('' @ arguments @ '')''))
                            tool_calls
                   else [])
                @ out', r)))"

definition main_tool :: "('client, 'agent) sdk \<Rightarrow> environ \<Rightarrow> effect list \<times> exn option" where
  "main_tool sdk environ =
     (if \<not> truthy (environ ''AZURE_OPENAI_ENDPOINT'') then
        ([print ''Error: AZURE_OPENAI_ENDPOINT environment variable not set''], None)
      else if \<not> truthy (environ ''AZURE_OPENAI_DEPLOYMENT_NAME'') then
        ([print ''Error: AZURE_OPENAI_DEPLOYMENT_NAME environment variable not set''], None)
      else
        (case AzureOpenAIChatClient sdk of
           Inl e \<Rightarrow>
             (case as_Exception e of
                Some msg \<Rightarrow>
                  ([ConstructClient,
                    print (''Error connecting to Azure OpenAI: '' @ msg),
                    print ''Make sure you've run 'az login' first''],
                   None)
              | None \<Rightarrow> ([ConstructClient], Some e))
         | Inr client \<Rightarrow>
             (case create_agent sdk client ''ToolBot'' toolbot_instructions
                     (Some [''get_current_time'', ''calculate_area'', ''convert_temperature'',
                            ''search_mock'', ''async_fetch_data'']) of
                Inl e \<Rightarrow>
                  ([ConstructClient, print (check_mark @ '' Connected to Azure OpenAI''),
                    CreateAgent ''ToolBot''], Some e)
              | Inr a \<Rightarrow>
                  (case run_queries sdk a test_queries of
                     (out, r) \<Rightarrow>
                       ([ConstructClient, print (check_mark @ '' Connected to Azure OpenAI''),
                         CreateAgent ''ToolBot'',
                         print (check_mark @ '' Agent created with tools''),
                         print (''  Available tools: '' @ str_int (int (length (agent_tools sdk a)))),
                         print (''\<newline>'' @ replicate 50 (CHR ''='')),
                         print ''Testing agent with various queries...'',
                         print (replicate 50 (CHR ''=''))]
                        @ out, r)))))"

text \<open>
  The \<open>__main__\<close> block shared by the two templates, after the banner that names the
  template: the effects, and the exception that no clause catches.
\<close>

definition template_script :: "string \<Rightarrow> effect list \<times> exn option \<Rightarrow> effect list \<times> exn option" where
  "template_script title main_result =
     (let banner = [print (''Microsoft Agent Framework - '' @ title), print (replicate 50 (CHR ''=''))]
      in case main_result of
           (out, None) \<Rightarrow> (banner @ out, None)
         | (out, Some KeyboardInterrupt) \<Rightarrow>
             (banner @ out @ [print ''\<newline>\<newline>Execution cancelled by user''], None)
         | (out, Some e) \<Rightarrow>
             (case as_Exception e of
                Some msg \<Rightarrow> (banner @ out @ [print (''\<newline>\<newline>Error: '' @ msg), Traceback], None)
              | None \<Rightarrow> (banner @ out, Some e)))"

definition script_tool :: "('client, 'agent) sdk \<Rightarrow> environ \<Rightarrow> effect list \<times> exn option" where
  "script_tool sdk environ = template_script ''Tool Agent Template'' (main_tool sdk environ)"

section \<open>basic\_agent\_template.py\<close>

definition assistant_instructions :: string where
  "assistant_instructions =
     ''You are a helpful, friendly assistant.\<newline>'' @
     ''        \<newline>'' @
     ''Be concise and clear in your responses.\<newline>'' @
     ''If you're unsure about something, say so.\<newline>'' @
     ''Always be respectful and professional.''"

text \<open>One \<open>result = await agent.run(message)\<close> followed by the print of its text.\<close>

definition ask :: "('client, 'agent) sdk \<Rightarrow> 'agent \<Rightarrow> string \<Rightarrow> effect list \<times> (exn + 'agent)" where
  "ask sdk a message =
     (case agent_run sdk a message of
        (Inl e, a') \<Rightarrow> ([Run message], Inl e)
      | (Inr (reply, _), a') \<Rightarrow> ([Run message, print (''Agent: '' @ reply)], Inr a'))"

definition main_basic :: "('client, 'agent) sdk \<Rightarrow> environ \<Rightarrow> effect list \<times> exn option" where
  "main_basic sdk environ =
     (if \<not> truthy (environ ''AZURE_OPENAI_ENDPOINT'') then
        ([print ''Error: AZURE_OPENAI_ENDPOINT environment variable not set'',
          print (''Set it with: export AZURE_OPENAI_ENDPOINT='https://your-resource.openai.azure.com/'' @ [CHR 0x27])],
         None)
      else if \<not> truthy (environ ''AZURE_OPENAI_DEPLOYMENT_NAME'') then
        ([print ''Error: AZURE_OPENAI_DEPLOYMENT_NAME environment variable not set'',
          print (''Set it with: export AZURE_OPENAI_DEPLOYMENT_NAME='gpt-4o-mini'' @ [CHR 0x27])],
         None)
      else
        (case AzureOpenAIChatClient sdk of
           Inl e \<Rightarrow>
             (case as_Exception e of
                Some msg \<Rightarrow>
                  ([ConstructClient,
                    print (''Error connecting to Azure OpenAI: '' @ msg),
                    print ''Make sure you've run 'az login' first''],
                   None)
              | None \<Rightarrow> ([ConstructClient], Some e))
         | Inr client \<Rightarrow>
             (let out0 = [ConstructClient, print (check_mark @ '' Connected to Azure OpenAI''),
                          CreateAgent ''Assistant'']
              in case create_agent sdk client ''Assistant'' assistant_instructions None of
                   Inl e \<Rightarrow> (out0, Some e)
                 | Inr a \<Rightarrow>
                     (let out1 = out0 @
                            [print (check_mark @ '' Agent created''),
                             print (''\<newline>'' @ replicate 50 (CHR ''='')),
                             print ''Testing agent with a simple query...'',
                             print (replicate 50 (CHR ''='') @ ''\<newline>'')]
                      in case ask sdk a ''Hello! What can you help me with?'' of
                           (o1, Inl e) \<Rightarrow> (out1 @ o1, Some e)
                         | (o1, Inr a1) \<Rightarrow>
                             (let out2 = out1 @ o1 @
                                    [print (''\<newline>'' @ replicate 50 (CHR ''='')),
                                     print ''Testing multi-turn conversation...'',
                                     print (replicate 50 (CHR ''='') @ ''\<newline>'')]
                              in case ask sdk a1 ''My name is Alice and I like programming.'' of
                                   (o2, Inl e) \<Rightarrow> (out2 @ o2, Some e)
                                 | (o2, Inr a2) \<Rightarrow>
                                     (case ask sdk a2 ''What's my name and what do I like?'' of
                                        (o3, Inl e) \<Rightarrow> (out2 @ o2 @ o3, Some e)
                                      | (o3, Inr _) \<Rightarrow> (out2 @ o2 @ o3, None)))))))"

definition script_basic :: "('client, 'agent) sdk \<Rightarrow> environ \<Rightarrow> effect list \<times> exn option" where
  "script_basic sdk environ = template_script ''Basic Agent Template'' (main_basic sdk environ)"

section \<open>Concrete inputs\<close>

text \<open>
  A framework to run the scripts against: the agent is the list of the messages it has
  received; it streams an echo of the message in two chunks, and the request for the
  message \<open>boom\<close> fails after one chunk.
\<close>

definition demo_sdk :: "(unit, string list) sdk" where
  "demo_sdk =
     \<lparr>AzureOpenAIChatClient = Inr (),
      create_agent = (\<lambda>client name instructions tools. Inr []),
      agent_tools = (\<lambda>a. [(''calculate'', ''Safely evaluate a mathematical expression.'')]),
      agent_run = (\<lambda>a message. (Inr (''Hello!'', []), a @ [message])),
      agent_run_stream = (\<lambda>a message.
         (if message = ''boom'' then ([''par''], Some (Exception ''timeout''))
          else if message = ''slow'' then ([''wait''], Some KeyboardInterrupt)
          else ([''You said: '', message], None),
          a @ [message]))\<rparr>"

text \<open>An \<open>eval\<close> that knows one sum and counts its calls in the state of the world.\<close>

definition demo_eval :: "nat \<Rightarrow> string \<Rightarrow> (exn + string) \<times> nat" where
  "demo_eval w expression =
     (if expression = ''2 + 2'' then Inr ''4'' else Inl (Exception ''invalid syntax''), Suc w)"

text \<open>An environment with the endpoint set and the deployment name set to the empty string.\<close>

definition demo_environ :: environ where
  "demo_environ = [''AZURE_OPENAI_ENDPOINT'' \<mapsto> ''https://example.openai.azure.com/'',
                   ''AZURE_OPENAI_DEPLOYMENT_NAME'' \<mapsto> []]"

section \<open>The tools are what their signatures say\<close>

text \<open>
  C3. Converting 25 degrees Celsius with the direction left at its default gives 77 degrees
  Fahrenheit.
\<close>

theorem convert_temperature_25: "convert_temperature 25 to_fahrenheit_default = 77"
  by (simp add: convert_temperature_def to_fahrenheit_default_def)

text \<open>
  C4. The area of a rectangle of 5 by 3 is 15, and for every length and width the area is
  their product.
\<close>

theorem calculate_area_product: "calculate_area 5 3 = 15 \<and> (\<forall>l w. calculate_area l w = l * w)"
  by (simp add: calculate_area_def)

text \<open>
  C9. Over the rationals the two directions of the temperature conversion undo each other,
  in either order.
\<close>

theorem convert_temperature_round_trip:
  "convert_temperature (convert_temperature t True) False = t
   \<and> convert_temperature (convert_temperature t False) True = t"
  by (simp add: convert_temperature_def field_simps)

subsection \<open>The mock search\<close>

lemma length_search_mock: "length (search_mock query max_results) = nat (min max_results 3)"
  by (simp add: search_mock_def range_py_def)

lemma nth_search_mock:
  assumes "k < length (search_mock query max_results)"
  shows "search_mock query max_results ! k = search_result query (int k)"
proof -
  from assms have k: "k < nat (min max_results 3)"
    by (simp add: length_search_mock)
  then have "0 + int k \<le> min max_results 3 - 1"
    by linarith
  then have "[0..min max_results 3 - 1] ! k = 0 + int k"
    by (rule nth_upto)
  with k show ?thesis
    by (simp add: search_mock_def range_py_def)
qed

lemma str_int_small: "str_int 1 = ''1''" "str_int 2 = ''2''" "str_int 3 = ''3''"
  by (simp_all add: str_int_def str_nat.simps digit_char_def)

text \<open>
  C8. For every query and every integer \<open>max_results\<close>, \<open>search_mock\<close> returns
  \<open>min(max_results, 3)\<close> results when \<open>max_results\<close> is not negative, never more
  than three, and none when \<open>max_results\<close> is zero or negative; the result at index
  \<open>k\<close> is a dict of a \<open>title\<close>, which is \<open>Result k+1 for 'query'\<close>, and a
  \<open>snippet\<close>.
\<close>

theorem search_mock_results:
  "(0 \<le> max_results \<longrightarrow> int (length (search_mock query max_results)) = min max_results 3)
   \<and> length (search_mock query max_results) \<le> 3
   \<and> (max_results \<le> 0 \<longrightarrow> search_mock query max_results = [])
   \<and> (\<forall>k < length (search_mock query max_results).
         search_mock query max_results ! k =
           [(''title'', ''Result '' @ str_int (int k + 1) @ '' for '' @ [CHR 0x27] @ query @ [CHR 0x27]),
            (''snippet'', ''This is a sample result for your search query.'')])"
proof (intro conjI impI allI)
  assume "0 \<le> max_results"
  then show "int (length (search_mock query max_results)) = min max_results 3"
    by (simp add: length_search_mock)
next
  show "length (search_mock query max_results) \<le> 3"
    by (simp add: length_search_mock)
next
  assume "max_results \<le> 0"
  then have "length (search_mock query max_results) = 0"
    by (simp add: length_search_mock)
  then show "search_mock query max_results = []"
    by simp
next
  fix k
  assume "k < length (search_mock query max_results)"
  then show "search_mock query max_results ! k =
           [(''title'', ''Result '' @ str_int (int k + 1) @ '' for '' @ [CHR 0x27] @ query @ [CHR 0x27]),
            (''snippet'', ''This is a sample result for your search query.'')]"
    by (simp add: nth_search_mock search_result_def)
qed

theorem search_mock_results_witness:
  "length (search_mock ''python'' max_results_default) = 3
   \<and> search_mock ''python'' max_results_default ! 2 =
       [(''title'', ''Result 3 for 'python'' @ [CHR 0x27]),
        (''snippet'', ''This is a sample result for your search query.'')]
   \<and> search_mock ''python'' (- 2) = []"
  using search_mock_results [of max_results_default "''python''"]
    search_mock_results [of "- 2" "''python''"]
  by (simp add: str_int_small max_results_default_def)

section \<open>The calculator rejects what it cannot read\<close>

lemma allowed_not_E: "CHR ''E'' \<notin> allowed_chars"
  by (simp add: allowed_chars_def)

lemma result_line_not_error:
  assumes "list_all (\<lambda>c. c \<in> allowed_chars) expression"
  shows "expression @ '' = '' @ result \<noteq> ''Error: Expression contains invalid characters''"
proof (cases expression)
  case Nil
  then show ?thesis by simp
next
  case (Cons c cs)
  with assms have "c \<in> allowed_chars" by simp
  with allowed_not_E have "c \<noteq> CHR ''E''" by auto
  with Cons show ?thesis by simp
qed

lemma list_all_allowed: "list_all (\<lambda>c. c \<in> allowed_chars) expression \<longleftrightarrow> \<not> (\<exists>c \<in> set expression. c \<notin> allowed_chars)"
  by (simp add: list_all_iff)

text \<open>
  C1. An expression with a character outside \<open>0123456789+-*/(). \<close> is rejected:
  \<open>calculate\<close> returns \<open>Error: Expression contains invalid characters\<close> and
  leaves the world as it was, whatever \<open>eval\<close> would have done, so \<open>eval\<close> was not
  called. Conversely that error string is returned only for such an expression.
\<close>

theorem calculate_rejects_invalid_characters:
  "((\<exists>c \<in> set expression. c \<notin> allowed_chars) \<longrightarrow>
      calculate eval w expression = (Inr ''Error: Expression contains invalid characters'', w))
   \<and> (fst (calculate eval w expression) = Inr ''Error: Expression contains invalid characters'' \<longrightarrow>
      (\<exists>c \<in> set expression. c \<notin> allowed_chars))"
proof (intro conjI impI)
  assume "\<exists>c \<in> set expression. c \<notin> allowed_chars"
  then have "\<not> list_all (\<lambda>c. c \<in> allowed_chars) expression"
    by (simp add: list_all_allowed)
  then show "calculate eval w expression = (Inr ''Error: Expression contains invalid characters'', w)"
    by (simp add: calculate_def)
next
  assume err: "fst (calculate eval w expression) = Inr ''Error: Expression contains invalid characters''"
  show "\<exists>c \<in> set expression. c \<notin> allowed_chars"
  proof (rule ccontr)
    assume "\<not> (\<exists>c \<in> set expression. c \<notin> allowed_chars)"
    then have ok: "list_all (\<lambda>c. c \<in> allowed_chars) expression"
      by (simp add: list_all_allowed)
    obtain r w' where ev: "eval w expression = (r, w')"
      by (cases "eval w expression")
    show False
    proof (cases r)
      case (Inr result)
      with ok ev err have "expression @ '' = '' @ result = ''Error: Expression contains invalid characters''"
        by (simp add: calculate_def)
      with result_line_not_error [OF ok] show False by blast
    next
      case (Inl e)
      with ok ev err show False
        by (cases "as_Exception e") (simp_all add: calculate_def)
    qed
  qed
qed

theorem calculate_rejects_invalid_characters_witness:
  "calculate demo_eval 0 ''2 + x'' = (Inr ''Error: Expression contains invalid characters'', 0)
   \<and> calculate demo_eval 0 ''2 + 2'' = (Inr ''2 + 2 = 4'', 1)
   \<and> calculate demo_eval 0 ''2 +'' = (Inr ''Error calculating: invalid syntax'', 1)"
proof -
  have bad: "\<exists>c \<in> set ''2 + x''. c \<notin> allowed_chars"
    by (simp add: allowed_chars_def)
  have "calculate demo_eval 0 ''2 + x'' = (Inr ''Error: Expression contains invalid characters'', 0)"
    using calculate_rejects_invalid_characters [of "''2 + x''" demo_eval 0] bad by blast
  moreover have "calculate demo_eval 0 ''2 + 2'' = (Inr ''2 + 2 = 4'', 1)"
    by (simp add: calculate_def demo_eval_def allowed_chars_def)
  moreover have "calculate demo_eval 0 ''2 +'' = (Inr ''Error calculating: invalid syntax'', 1)"
    by (simp add: calculate_def demo_eval_def allowed_chars_def)
  ultimately show ?thesis by simp
qed

section \<open>The command loop\<close>

text \<open>
  C10. \<open>clear_history\<close> sets \<open>conversation_count\<close> to 0 and changes nothing else of
  the object: the \<open>agent\<close> field is the one it was, and the only effect is the printed
  line, so no call reaches the agent.
\<close>

theorem clear_history_frame:
  "conversation_count (snd (clear_history self)) = 0
   \<and> agent (snd (clear_history self)) = agent self
   \<and> snd (clear_history self) = self\<lparr>conversation_count := 0\<rparr>
   \<and> fst (clear_history self) = [Write ''\<newline>[Conversation history cleared]\<newline>\<newline>'']"
  by (simp add: clear_history_def print_def)

subsection \<open>Dispatch of a line\<close>

lemma print_not_RunStream: "print s \<noteq> RunStream m"
  by (simp add: print_def)

lemma print_help_no_RunStream: "RunStream m \<notin> set print_help"
  by (simp add: print_help_def print_def)

lemma show_tools_no_RunStream: "RunStream m \<notin> set (show_tools sdk self)"
  by (auto simp add: show_tools_def print_def)

lemma clear_history_no_RunStream: "RunStream m \<notin> set (fst (clear_history self))"
  by (simp add: clear_history_def print_def)

lemma loop_body_command:
  assumes "strip line \<noteq> []" and "startswith (strip line) ''/''"
  shows "loop_body sdk self (Inr line) =
     (let command = lower (strip line) in
              if command \<in> set [''/quit'', ''/exit''] then
                ([Write ''You: '', print ''\<newline>Goodbye! Thanks for chatting.\<newline>''], Break, self)
              else if command = ''/help'' then
                (Write ''You: '' # print_help, Continue, self)
              else if command = ''/clear'' then
                (Write ''You: '' # fst (clear_history self), Continue, snd (clear_history self))
              else if command = ''/tools'' then
                (Write ''You: '' # show_tools sdk self, Continue, self)
              else
                ([Write ''You: '', print (''Unknown command: '' @ command),
                  print ''Type /help for available commands.\<newline>''], Continue, self))"
  using assms by (simp add: loop_body_def Let_def)

lemma loop_body_message:
  assumes "strip line \<noteq> []" and "\<not> startswith (strip line) ''/''"
  shows "loop_body sdk self (Inr line) =
     (case agent_run_stream sdk (agent self) (strip line) of
                ((chunks, ending), a') \<Rightarrow>
                  (let self' = self\<lparr>agent := a'\<rparr>;
                       out = [Write ''You: '', Write ''Agent: '', RunStream (strip line)] @ map Write chunks
                   in case ending of
                        None \<Rightarrow>
                          (out @ [print [], print []], Continue,
                           self'\<lparr>conversation_count := conversation_count self' + 1\<rparr>)
                      | Some e \<Rightarrow>
                          (case as_Exception e of
                             Some msg \<Rightarrow> (out @ [print (''\<newline>[Error: '' @ msg @ '']'')], Continue, self')
                           | None \<Rightarrow> outer_handler self' out e)))"
  using assms by (simp add: loop_body_def Let_def)

lemma command_never_forwarded:
  assumes "strip line \<noteq> []" and "startswith (strip line) ''/''"
  shows "RunStream m \<notin> set (fst (loop_body sdk self (Inr line)))"
  using assms
  by (simp add: loop_body_command Let_def print_not_RunStream [symmetric] print_help_no_RunStream
      show_tools_no_RunStream clear_history_no_RunStream)

lemma message_forwarded:
  assumes "strip line \<noteq> []" and "\<not> startswith (strip line) ''/''"
  shows "take 3 (fst (loop_body sdk self (Inr line))) =
           [Write ''You: '', Write ''Agent: '', RunStream (strip line)]"
proof -
  obtain chunks ending a' where rs: "agent_run_stream sdk (agent self) (strip line) = ((chunks, ending), a')"
    by (metis surj_pair)
  show ?thesis
  proof (cases ending)
    case None
    with rs assms show ?thesis by (simp add: loop_body_message)
  next
    case (Some e)
    show ?thesis
    proof (cases "as_Exception e")
      case (Some msg)
      with rs \<open>ending = Some e\<close> assms show ?thesis by (simp add: loop_body_message)
    next
      case None
      with rs \<open>ending = Some e\<close> assms show ?thesis
        by (cases e) (simp_all add: loop_body_message outer_handler_def)
    qed
  qed
qed

text \<open>
  C2 (as amended). Let \<open>user_input\<close> be the line read, stripped, and not empty. When it
  begins with \<open>/\<close>, its lower-case form is dispatched against the five commands
  \<open>/quit\<close>, \<open>/exit\<close>, \<open>/help\<close>, \<open>/clear\<close> and \<open>/tools\<close>: \<open>/quit\<close> and
  \<open>/exit\<close> print the goodbye and leave the loop, \<open>/help\<close> prints the help,
  \<open>/clear\<close> runs \<open>clear_history\<close>, \<open>/tools\<close> shows the tools, anything else prints
  the unknown-command message; in none of these cases is anything forwarded to the agent.
  When it does not begin with \<open>/\<close>, it is forwarded to the agent.
\<close>

theorem slash_commands_dispatch:
  assumes "user_input = strip line" and "user_input \<noteq> []"
  shows
    "(startswith user_input ''/'' \<longrightarrow>
        (lower user_input \<in> {''/quit'', ''/exit''} \<longrightarrow>
           loop_body sdk self (Inr line) =
             ([Write ''You: '', print ''\<newline>Goodbye! Thanks for chatting.\<newline>''], Break, self))
      \<and> (lower user_input = ''/help'' \<longrightarrow>
           loop_body sdk self (Inr line) = (Write ''You: '' # print_help, Continue, self))
      \<and> (lower user_input = ''/clear'' \<longrightarrow>
           loop_body sdk self (Inr line) =
             (Write ''You: '' # fst (clear_history self), Continue, snd (clear_history self)))
      \<and> (lower user_input = ''/tools'' \<longrightarrow>
           loop_body sdk self (Inr line) = (Write ''You: '' # show_tools sdk self, Continue, self))
      \<and> (lower user_input \<notin> {''/quit'', ''/exit'', ''/help'', ''/clear'', ''/tools''} \<longrightarrow>
           loop_body sdk self (Inr line) =
             ([Write ''You: '', print (''Unknown command: '' @ lower user_input),
               print ''Type /help for available commands.\<newline>''], Continue, self))
      \<and> (\<forall>m. RunStream m \<notin> set (fst (loop_body sdk self (Inr line)))))
   \<and> (\<not> startswith user_input ''/'' \<longrightarrow>
        take 3 (fst (loop_body sdk self (Inr line))) =
          [Write ''You: '', Write ''Agent: '', RunStream user_input])"
proof (intro conjI impI allI)
  fix m
  assume "startswith user_input ''/''"
  with assms show "RunStream m \<notin> set (fst (loop_body sdk self (Inr line)))"
    by (simp add: command_never_forwarded)
next
  assume "\<not> startswith user_input ''/''"
  with assms show "take 3 (fst (loop_body sdk self (Inr line))) =
          [Write ''You: '', Write ''Agent: '', RunStream user_input]"
    by (simp add: message_forwarded)
qed (use assms in \<open>simp_all add: loop_body_command Let_def\<close>)


lemma strip_examples:
  "strip ''  /Help '' = ''/Help''" "strip ''/EXIT'' = ''/EXIT''" "strip ''/clear'' = ''/clear''"
  "strip ''/tools'' = ''/tools''" "strip ''/bogus'' = ''/bogus''" "strip ''hello'' = ''hello''"
  by (simp_all add: strip_def isspace_def)

lemma lower_examples:
  "lower ''/Help'' = ''/help''" "lower ''/EXIT'' = ''/exit''" "lower ''/clear'' = ''/clear''"
  "lower ''/tools'' = ''/tools''" "lower ''/bogus'' = ''/bogus''" "lower ''/exit'' = ''/exit''"
  by code_simp+

theorem slash_commands_dispatch_witness:
  "loop_body demo_sdk (init []) (Inr ''  /Help '') = (Write ''You: '' # print_help, Continue, init [])
   \<and> loop_body demo_sdk (init []) (Inr ''/EXIT'') =
       ([Write ''You: '', print ''\<newline>Goodbye! Thanks for chatting.\<newline>''], Break, init [])
   \<and> loop_body demo_sdk \<lparr>agent = [''hi''], conversation_count = 1\<rparr> (Inr ''/clear'') =
       ([Write ''You: '', print ''\<newline>[Conversation history cleared]\<newline>''], Continue,
        \<lparr>agent = [''hi''], conversation_count = 0\<rparr>)
   \<and> loop_body demo_sdk (init []) (Inr ''/tools'') =
       ([Write ''You: '', print ''\<newline>Available tools (1):'',
         print (''  '' @ bullet @ '' calculate: Safely evaluate a mathematical expression.''),
         print []], Continue, init [])
   \<and> loop_body demo_sdk (init []) (Inr ''/bogus'') =
       ([Write ''You: '', print ''Unknown command: /bogus'',
         print ''Type /help for available commands.\<newline>''], Continue, init [])
   \<and> RunStream ''/Help'' \<notin> set (fst (loop_body demo_sdk (init []) (Inr ''  /Help '')))
   \<and> take 3 (fst (loop_body demo_sdk (init []) (Inr ''hello''))) =
       [Write ''You: '', Write ''Agent: '', RunStream ''hello'']"
proof -
  note at_help = slash_commands_dispatch [of "''/Help''" "''  /Help ''" demo_sdk "init []"]
  note at_exit = slash_commands_dispatch [of "''/EXIT''" "''/EXIT''" demo_sdk "init []"]
  note at_clear = slash_commands_dispatch [of "''/clear''" "''/clear''" demo_sdk
      "\<lparr>agent = [''hi''], conversation_count = 1\<rparr>"]
  note at_tools = slash_commands_dispatch [of "''/tools''" "''/tools''" demo_sdk "init []"]
  note at_bogus = slash_commands_dispatch [of "''/bogus''" "''/bogus''" demo_sdk "init []"]
  note at_hello = slash_commands_dispatch [of "''hello''" "''hello''" demo_sdk "init []"]
  from at_help
  have "loop_body demo_sdk (init []) (Inr ''  /Help '') = (Write ''You: '' # print_help, Continue, init [])"
    and "RunStream ''/Help'' \<notin> set (fst (loop_body demo_sdk (init []) (Inr ''  /Help '')))"
    by (simp_all add: strip_examples lower_examples startswith_def print_help_def print_def)
  moreover from at_exit
  have "loop_body demo_sdk (init []) (Inr ''/EXIT'') =
       ([Write ''You: '', print ''\<newline>Goodbye! Thanks for chatting.\<newline>''], Break, init [])"
    by (simp add: strip_examples lower_examples startswith_def)
  moreover from at_clear
  have "loop_body demo_sdk \<lparr>agent = [''hi''], conversation_count = 1\<rparr> (Inr ''/clear'') =
       ([Write ''You: '', print ''\<newline>[Conversation history cleared]\<newline>''], Continue,
        \<lparr>agent = [''hi''], conversation_count = 0\<rparr>)"
    by (simp add: strip_examples lower_examples startswith_def clear_history_def)
  moreover from at_tools
  have "loop_body demo_sdk (init []) (Inr ''/tools'') =
       ([Write ''You: '', print ''\<newline>Available tools (1):'',
         print (''  '' @ bullet @ '' calculate: Safely evaluate a mathematical expression.''),
         print []], Continue, init [])"
    by (simp add: strip_examples lower_examples startswith_def show_tools_def demo_sdk_def
        init_def str_int_small)
  moreover from at_bogus
  have "loop_body demo_sdk (init []) (Inr ''/bogus'') =
       ([Write ''You: '', print ''Unknown command: /bogus'',
         print ''Type /help for available commands.\<newline>''], Continue, init [])"
    by (simp add: strip_examples lower_examples startswith_def)
  moreover from at_hello
  have "take 3 (fst (loop_body demo_sdk (init []) (Inr ''hello''))) =
       [Write ''You: '', Write ''Agent: '', RunStream ''hello'']"
    by (simp add: strip_examples startswith_def)
  ultimately show ?thesis
    by simp
qed

text \<open>
  C2 as first stated names four commands and an unknown-command message for every other
  line that begins with \<open>/\<close>. The line \<open>/exit\<close> begins with \<open>/\<close> and is none of the
  four, yet it prints the goodbye and leaves the loop, and no unknown-command message is
  printed.
\<close>

theorem exit_is_a_fifth_command:
  "startswith ''/exit'' ''/''
   \<and> lower ''/exit'' \<notin> {''/help'', ''/clear'', ''/tools'', ''/quit''}
   \<and> loop_body demo_sdk (init []) (Inr ''/exit'') =
       ([Write ''You: '', print ''\<newline>Goodbye! Thanks for chatting.\<newline>''], Break, init [])
   \<and> print ''Unknown command: /exit'' \<notin> set (fst (loop_body demo_sdk (init []) (Inr ''/exit'')))"
proof -
  have "strip ''/exit'' = ''/exit''"
    by (simp add: strip_def isspace_def)
  then have "loop_body demo_sdk (init []) (Inr ''/exit'') =
       ([Write ''You: '', print ''\<newline>Goodbye! Thanks for chatting.\<newline>''], Break, init [])"
    by (simp add: loop_body_def lower_examples startswith_def)
  then show ?thesis
    by (simp add: lower_examples startswith_def print_def)
qed

subsection \<open>Failures and interrupts in the loop\<close>

text \<open>
  C6. When the stream of the agent's response ends with an exception that
  \<open>except Exception\<close> catches, the chunks received so far have been printed, the line
  \<open>[Error: ...]\<close> is printed, the loop goes on with the next input, and
  \<open>conversation_count\<close> is the one it was.
\<close>

theorem stream_failure_continues:
  assumes "strip line \<noteq> []" and "\<not> startswith (strip line) ''/''"
    and "agent_run_stream sdk (agent self) (strip line) = ((chunks, Some e), a')"
    and "as_Exception e = Some msg"
  shows
    "loop_body sdk self (Inr line) =
       ([Write ''You: '', Write ''Agent: '', RunStream (strip line)] @ map Write chunks
          @ [print (''\<newline>[Error: '' @ msg @ '']'')],
        Continue, self\<lparr>agent := a'\<rparr>)
     \<and> conversation_count (snd (snd (loop_body sdk self (Inr line)))) = conversation_count self
     \<and> run_loop sdk self (Inr line # rest) =
         (case run_loop sdk (self\<lparr>agent := a'\<rparr>) rest of
            (out', r, self'') \<Rightarrow>
              ([Write ''You: '', Write ''Agent: '', RunStream (strip line)] @ map Write chunks
                 @ [print (''\<newline>[Error: '' @ msg @ '']'')] @ out', r, self''))"
proof -
  from assms have body: "loop_body sdk self (Inr line) =
       ([Write ''You: '', Write ''Agent: '', RunStream (strip line)] @ map Write chunks
          @ [print (''\<newline>[Error: '' @ msg @ '']'')],
        Continue, self\<lparr>agent := a'\<rparr>)"
    by (simp add: loop_body_message)
  then show ?thesis
    by (simp split: prod.splits)
qed

lemma strip_boom: "strip ''boom'' = ''boom''"
  by (simp add: strip_def isspace_def)

lemma demo_boom: "agent_run_stream demo_sdk [] ''boom'' = (([''par''], Some (Exception ''timeout'')), [''boom''])"
  by (simp add: demo_sdk_def)

theorem stream_failure_continues_witness:
  "loop_body demo_sdk (init []) (Inr ''boom'') =
     ([Write ''You: '', Write ''Agent: '', RunStream ''boom'', Write ''par'',
       print ''\<newline>[Error: timeout]''],
      Continue, \<lparr>agent = [''boom''], conversation_count = 0\<rparr>)
   \<and> run_loop demo_sdk (init []) [Inr ''boom'', Inr ''/quit''] =
     ([Write ''You: '', Write ''Agent: '', RunStream ''boom'', Write ''par'',
       print ''\<newline>[Error: timeout]'',
       Write ''You: '', print ''\<newline>Goodbye! Thanks for chatting.\<newline>''],
      None, \<lparr>agent = [''boom''], conversation_count = 0\<rparr>)"
proof -
  have h1: "strip ''boom'' \<noteq> []"
    by (simp add: strip_boom)
  have h2: "\<not> startswith (strip ''boom'') ''/''"
    by (simp add: strip_boom startswith_def)
  have h3: "agent_run_stream demo_sdk (agent (init [])) (strip ''boom'') =
      (([''par''], Some (Exception ''timeout'')), [''boom''])"
    by (simp add: strip_boom demo_boom init_def)
  have h4: "as_Exception (Exception ''timeout'') = Some ''timeout''"
    by simp
  have quit: "run_loop demo_sdk ((init [])\<lparr>agent := [''boom'']\<rparr>) [Inr ''/quit''] =
      ([Write ''You: '', print ''\<newline>Goodbye! Thanks for chatting.\<newline>''], None,
       \<lparr>agent = [''boom''], conversation_count = 0\<rparr>)"
    by code_simp
  from stream_failure_continues [OF h1 h2 h3 h4, of "[Inr ''/quit'']"]
  show ?thesis
    unfolding quit by (simp add: strip_boom init_def del: run_loop.simps)
qed

text \<open>
  C7 as first stated has the interrupt end the loop. A \<open>KeyboardInterrupt\<close> at
  \<open>input\<close> ends the iteration with \<open>Continue\<close>, and the line typed after it is still
  read and forwarded to the agent.
\<close>

theorem keyboard_interrupt_loop_goes_on:
  "fst (snd (loop_body demo_sdk (init []) (Inl KeyboardInterrupt))) = Continue
   \<and> fst (snd (loop_body demo_sdk (init []) (Inl KeyboardInterrupt))) \<noteq> Break
   \<and> RunStream ''hello'' \<in> set (fst (run_loop demo_sdk (init []) [Inl KeyboardInterrupt, Inr ''hello'']))"
proof -
  have "loop_body demo_sdk (init []) (Inl KeyboardInterrupt) =
      ([Write ''You: '', print ''\<newline>\<newline>Use /quit to exit properly.\<newline>''], Continue, init [])"
    by (simp add: loop_body_def outer_handler_def)
  moreover have "fst (run_loop demo_sdk (init []) [Inl KeyboardInterrupt, Inr ''hello'']) =
      [Write ''You: '', print ''\<newline>\<newline>Use /quit to exit properly.\<newline>'',
       Write ''You: '', Write ''Agent: '', RunStream ''hello'', Write ''You said: '', Write ''hello'',
       print [], print [],
       Write ''You: '', print ''\<newline>\<newline>Goodbye! Thanks for chatting.\<newline>'']"
    by code_simp
  ultimately show ?thesis
    by simp
qed

text \<open>
  C7 (as amended). A \<open>KeyboardInterrupt\<close> raised in the conversation loop, at
  \<open>input\<close> or while the response is streamed, is caught inside the loop: the message
  \<open>Use /quit to exit properly.\<close> is printed and the loop goes on with the next
  iteration. The loop ends at the end of standard input, with the goodbye message. In the
  two templates a \<open>KeyboardInterrupt\<close> that leaves \<open>main\<close> ends the script with the
  message \<open>Execution cancelled by user\<close>.
\<close>

theorem keyboard_interrupt_handling:
  "loop_body sdk self (Inl KeyboardInterrupt) =
     ([Write ''You: '', print ''\<newline>\<newline>Use /quit to exit properly.\<newline>''], Continue, self)
   \<and> run_loop sdk self (Inl KeyboardInterrupt # rest) =
       (case run_loop sdk self rest of
          (out', r, self'') \<Rightarrow>
            ([Write ''You: '', print ''\<newline>\<newline>Use /quit to exit properly.\<newline>''] @ out', r, self''))
   \<and> (strip line \<noteq> [] \<and> \<not> startswith (strip line) ''/''
        \<and> agent_run_stream sdk (agent self) (strip line) = ((chunks, Some KeyboardInterrupt), a') \<longrightarrow>
        loop_body sdk self (Inr line) =
          ([Write ''You: '', Write ''Agent: '', RunStream (strip line)] @ map Write chunks
             @ [print ''\<newline>\<newline>Use /quit to exit properly.\<newline>''],
           Continue, self\<lparr>agent := a'\<rparr>))
   \<and> run_loop sdk self [] =
       ([Write ''You: '', print ''\<newline>\<newline>Goodbye! Thanks for chatting.\<newline>''], None, self)
   \<and> template_script title (out, Some KeyboardInterrupt) =
       ([print (''Microsoft Agent Framework - '' @ title), print (replicate 50 (CHR ''=''))] @ out
          @ [print ''\<newline>\<newline>Execution cancelled by user''], None)"
proof (intro conjI impI)
  show body: "loop_body sdk self (Inl KeyboardInterrupt) =
     ([Write ''You: '', print ''\<newline>\<newline>Use /quit to exit properly.\<newline>''], Continue, self)"
    by (simp add: loop_body_def outer_handler_def)
  then show "run_loop sdk self (Inl KeyboardInterrupt # rest) =
       (case run_loop sdk self rest of
          (out', r, self'') \<Rightarrow>
            ([Write ''You: '', print ''\<newline>\<newline>Use /quit to exit properly.\<newline>''] @ out', r, self''))"
    by (simp split: prod.splits)
next
  assume "strip line \<noteq> [] \<and> \<not> startswith (strip line) ''/''
        \<and> agent_run_stream sdk (agent self) (strip line) = ((chunks, Some KeyboardInterrupt), a')"
  then show "loop_body sdk self (Inr line) =
          ([Write ''You: '', Write ''Agent: '', RunStream (strip line)] @ map Write chunks
             @ [print ''\<newline>\<newline>Use /quit to exit properly.\<newline>''],
           Continue, self\<lparr>agent := a'\<rparr>)"
    by (simp add: loop_body_message outer_handler_def)
next
  show "run_loop sdk self [] =
       ([Write ''You: '', print ''\<newline>\<newline>Goodbye! Thanks for chatting.\<newline>''], None, self)"
    by (simp add: loop_body_def outer_handler_def)
next
  show "template_script title (out, Some KeyboardInterrupt) =
       ([print (''Microsoft Agent Framework - '' @ title), print (replicate 50 (CHR ''=''))] @ out
          @ [print ''\<newline>\<newline>Execution cancelled by user''], None)"
    by (simp add: template_script_def)
qed

lemma strip_slow: "strip ''slow'' = ''slow''"
  by (simp add: strip_def isspace_def)

theorem keyboard_interrupt_handling_witness:
  "loop_body demo_sdk (init []) (Inr ''slow'') =
     ([Write ''You: '', Write ''Agent: '', RunStream ''slow'', Write ''wait'',
       print ''\<newline>\<newline>Use /quit to exit properly.\<newline>''],
      Continue, \<lparr>agent = [''slow''], conversation_count = 0\<rparr>)"
  using keyboard_interrupt_handling [of demo_sdk "init []" "[]" "''slow''" "[''wait'']" "[''slow'']"]
  by (simp add: strip_slow startswith_def demo_sdk_def init_def)

section \<open>The environment check of main\<close>

lemma truthy_iff: "truthy v \<longleftrightarrow> v \<notin> {None, Some []}"
  by (cases v) (simp_all add: truthy_def)

lemma main_conversation_no_endpoint:
  assumes "environ ''AZURE_OPENAI_ENDPOINT'' \<in> {None, Some []}"
  shows "main_conversation sdk environ stdin =
     ([print ''Error: AZURE_OPENAI_ENDPOINT environment variable not set'',
       print (''Set it with: export AZURE_OPENAI_ENDPOINT='https://your-resource.openai.azure.com/'' @ [CHR 0x27])],
      Inr 1)"
  using assms unfolding main_conversation_def truthy_iff by simp

lemma main_conversation_no_deployment:
  assumes "environ ''AZURE_OPENAI_ENDPOINT'' \<notin> {None, Some []}"
    and "environ ''AZURE_OPENAI_DEPLOYMENT_NAME'' \<in> {None, Some []}"
  shows "main_conversation sdk environ stdin =
     ([print ''Error: AZURE_OPENAI_DEPLOYMENT_NAME environment variable not set'',
       print (''Set it with: export AZURE_OPENAI_DEPLOYMENT_NAME='gpt-4o-mini'' @ [CHR 0x27])],
      Inr 1)"
  using assms unfolding main_conversation_def truthy_iff by simp

lemma main_tool_no_endpoint:
  assumes "environ ''AZURE_OPENAI_ENDPOINT'' \<in> {None, Some []}"
  shows "main_tool sdk environ =
     ([print ''Error: AZURE_OPENAI_ENDPOINT environment variable not set''], None)"
  using assms unfolding main_tool_def truthy_iff by simp

lemma main_tool_no_deployment:
  assumes "environ ''AZURE_OPENAI_ENDPOINT'' \<notin> {None, Some []}"
    and "environ ''AZURE_OPENAI_DEPLOYMENT_NAME'' \<in> {None, Some []}"
  shows "main_tool sdk environ =
     ([print ''Error: AZURE_OPENAI_DEPLOYMENT_NAME environment variable not set''], None)"
  using assms unfolding main_tool_def truthy_iff by simp

lemma main_basic_no_endpoint:
  assumes "environ ''AZURE_OPENAI_ENDPOINT'' \<in> {None, Some []}"
  shows "main_basic sdk environ =
     ([print ''Error: AZURE_OPENAI_ENDPOINT environment variable not set'',
       print (''Set it with: export AZURE_OPENAI_ENDPOINT='https://your-resource.openai.azure.com/'' @ [CHR 0x27])],
      None)"
  using assms unfolding main_basic_def truthy_iff by simp

lemma main_basic_no_deployment:
  assumes "environ ''AZURE_OPENAI_ENDPOINT'' \<notin> {None, Some []}"
    and "environ ''AZURE_OPENAI_DEPLOYMENT_NAME'' \<in> {None, Some []}"
  shows "main_basic sdk environ =
     ([print ''Error: AZURE_OPENAI_DEPLOYMENT_NAME environment variable not set'',
       print (''Set it with: export AZURE_OPENAI_DEPLOYMENT_NAME='gpt-4o-mini'' @ [CHR 0x27])],
      None)"
  using assms unfolding main_basic_def truthy_iff by simp

lemma main_conversation_proceeds:
  assumes "environ ''AZURE_OPENAI_ENDPOINT'' \<notin> {None, Some []}"
    and "environ ''AZURE_OPENAI_DEPLOYMENT_NAME'' \<notin> {None, Some []}"
  shows "hd (fst (main_conversation sdk environ stdin)) = ConstructClient"
  using assms unfolding main_conversation_def truthy_iff
  by (simp split: sum.splits option.splits prod.splits)

lemma main_tool_proceeds:
  assumes "environ ''AZURE_OPENAI_ENDPOINT'' \<notin> {None, Some []}"
    and "environ ''AZURE_OPENAI_DEPLOYMENT_NAME'' \<notin> {None, Some []}"
  shows "hd (fst (main_tool sdk environ)) = ConstructClient"
  using assms unfolding main_tool_def truthy_iff
  by (simp split: sum.splits option.splits prod.splits)

lemma main_basic_proceeds:
  assumes "environ ''AZURE_OPENAI_ENDPOINT'' \<notin> {None, Some []}"
    and "environ ''AZURE_OPENAI_DEPLOYMENT_NAME'' \<notin> {None, Some []}"
  shows "hd (fst (main_basic sdk environ)) = ConstructClient"
  using assms unfolding main_basic_def truthy_iff
  by (simp add: Let_def split: sum.splits option.splits prod.splits)

lemma missing_cases:
  assumes "environ ''AZURE_OPENAI_ENDPOINT'' \<in> {None, Some []}
        \<or> environ ''AZURE_OPENAI_DEPLOYMENT_NAME'' \<in> {None, Some []}"
  obtains (endpoint) "environ ''AZURE_OPENAI_ENDPOINT'' \<in> {None, Some []}"
    | (deployment) "environ ''AZURE_OPENAI_ENDPOINT'' \<notin> {None, Some []}"
        "environ ''AZURE_OPENAI_DEPLOYMENT_NAME'' \<in> {None, Some []}"
  using assms by blast

lemma main_conversation_aborts:
  assumes "environ ''AZURE_OPENAI_ENDPOINT'' \<in> {None, Some []}
        \<or> environ ''AZURE_OPENAI_DEPLOYMENT_NAME'' \<in> {None, Some []}"
  shows "ConstructClient \<notin> set (fst (main_conversation sdk environ stdin))
    \<and> (\<forall>name. CreateAgent name \<notin> set (fst (main_conversation sdk environ stdin)))"
  using assms
  by (cases rule: missing_cases)
    (simp_all add: main_conversation_no_endpoint main_conversation_no_deployment
      print_def)

lemma main_tool_aborts:
  assumes "environ ''AZURE_OPENAI_ENDPOINT'' \<in> {None, Some []}
        \<or> environ ''AZURE_OPENAI_DEPLOYMENT_NAME'' \<in> {None, Some []}"
  shows "ConstructClient \<notin> set (fst (main_tool sdk environ))
    \<and> (\<forall>name. CreateAgent name \<notin> set (fst (main_tool sdk environ)))"
  using assms
  by (cases rule: missing_cases)
    (simp_all add: main_tool_no_endpoint main_tool_no_deployment print_def)

lemma main_basic_aborts:
  assumes "environ ''AZURE_OPENAI_ENDPOINT'' \<in> {None, Some []}
        \<or> environ ''AZURE_OPENAI_DEPLOYMENT_NAME'' \<in> {None, Some []}"
  shows "ConstructClient \<notin> set (fst (main_basic sdk environ))
    \<and> (\<forall>name. CreateAgent name \<notin> set (fst (main_basic sdk environ)))"
  using assms
  by (cases rule: missing_cases)
    (simp_all add: main_basic_no_endpoint main_basic_no_deployment print_def)

text \<open>
  C5. When \<open>AZURE_OPENAI_ENDPOINT\<close> or \<open>AZURE_OPENAI_DEPLOYMENT_NAME\<close> is unset or
  empty, each \<open>main\<close> prints the error message for the first of the two that is missing
  and returns (the exit code 1 in conversation\_loop.py) with no call to the framework:
  neither the client nor the agent is constructed. When both are set, the first effect of
  each \<open>main\<close> is the construction of the client.
\<close>

theorem missing_environment_aborts:
  "(environ ''AZURE_OPENAI_ENDPOINT'' \<in> {None, Some []} \<longrightarrow>
      main_conversation sdk environ stdin =
        ([print ''Error: AZURE_OPENAI_ENDPOINT environment variable not set'',
          print (''Set it with: export AZURE_OPENAI_ENDPOINT='https://your-resource.openai.azure.com/'' @ [CHR 0x27])],
         Inr 1)
      \<and> main_tool sdk environ =
        ([print ''Error: AZURE_OPENAI_ENDPOINT environment variable not set''], None)
      \<and> main_basic sdk environ =
        ([print ''Error: AZURE_OPENAI_ENDPOINT environment variable not set'',
          print (''Set it with: export AZURE_OPENAI_ENDPOINT='https://your-resource.openai.azure.com/'' @ [CHR 0x27])],
         None))
   \<and> (environ ''AZURE_OPENAI_ENDPOINT'' \<notin> {None, Some []}
        \<and> environ ''AZURE_OPENAI_DEPLOYMENT_NAME'' \<in> {None, Some []} \<longrightarrow>
      main_conversation sdk environ stdin =
        ([print ''Error: AZURE_OPENAI_DEPLOYMENT_NAME environment variable not set'',
          print (''Set it with: export AZURE_OPENAI_DEPLOYMENT_NAME='gpt-4o-mini'' @ [CHR 0x27])],
         Inr 1)
      \<and> main_tool sdk environ =
        ([print ''Error: AZURE_OPENAI_DEPLOYMENT_NAME environment variable not set''], None)
      \<and> main_basic sdk environ =
        ([print ''Error: AZURE_OPENAI_DEPLOYMENT_NAME environment variable not set'',
          print (''Set it with: export AZURE_OPENAI_DEPLOYMENT_NAME='gpt-4o-mini'' @ [CHR 0x27])],
         None))
   \<and> (environ ''AZURE_OPENAI_ENDPOINT'' \<in> {None, Some []}
        \<or> environ ''AZURE_OPENAI_DEPLOYMENT_NAME'' \<in> {None, Some []} \<longrightarrow>
      ConstructClient \<notin> set (fst (main_conversation sdk environ stdin))
      \<and> (\<forall>name. CreateAgent name \<notin> set (fst (main_conversation sdk environ stdin)))
      \<and> ConstructClient \<notin> set (fst (main_tool sdk environ))
      \<and> (\<forall>name. CreateAgent name \<notin> set (fst (main_tool sdk environ)))
      \<and> ConstructClient \<notin> set (fst (main_basic sdk environ))
      \<and> (\<forall>name. CreateAgent name \<notin> set (fst (main_basic sdk environ))))
   \<and> (environ ''AZURE_OPENAI_ENDPOINT'' \<notin> {None, Some []}
        \<and> environ ''AZURE_OPENAI_DEPLOYMENT_NAME'' \<notin> {None, Some []} \<longrightarrow>
      hd (fst (main_conversation sdk environ stdin)) = ConstructClient
      \<and> hd (fst (main_tool sdk environ)) = ConstructClient
      \<and> hd (fst (main_basic sdk environ)) = ConstructClient)"
  by (simp add: main_conversation_no_endpoint main_conversation_no_deployment
      main_tool_no_endpoint main_tool_no_deployment main_basic_no_endpoint main_basic_no_deployment
      main_conversation_proceeds main_tool_proceeds main_basic_proceeds
      main_conversation_aborts main_tool_aborts main_basic_aborts)

theorem missing_environment_aborts_witness:
  "main_conversation demo_sdk demo_environ [Inr ''hello''] =
     ([print ''Error: AZURE_OPENAI_DEPLOYMENT_NAME environment variable not set'',
       print (''Set it with: export AZURE_OPENAI_DEPLOYMENT_NAME='gpt-4o-mini'' @ [CHR 0x27])],
      Inr 1)
   \<and> main_tool demo_sdk Map.empty =
     ([print ''Error: AZURE_OPENAI_ENDPOINT environment variable not set''], None)
   \<and> ConstructClient \<notin> set (fst (main_basic demo_sdk demo_environ))
   \<and> hd (fst (main_tool demo_sdk (demo_environ(''AZURE_OPENAI_DEPLOYMENT_NAME'' \<mapsto> ''gpt-4o-mini'')))) =
       ConstructClient"
proof -
  have endpoint: "demo_environ ''AZURE_OPENAI_ENDPOINT'' \<notin> {None, Some []}"
    and deployment: "demo_environ ''AZURE_OPENAI_DEPLOYMENT_NAME'' \<in> {None, Some []}"
    by (simp_all add: demo_environ_def)
  have unset: "Map.empty ''AZURE_OPENAI_ENDPOINT'' \<in> {None, Some []}"
    by simp
  have both: "(demo_environ(''AZURE_OPENAI_DEPLOYMENT_NAME'' \<mapsto> ''gpt-4o-mini''))
        ''AZURE_OPENAI_ENDPOINT'' \<notin> {None, Some []}
      \<and> (demo_environ(''AZURE_OPENAI_DEPLOYMENT_NAME'' \<mapsto> ''gpt-4o-mini''))
        ''AZURE_OPENAI_DEPLOYMENT_NAME'' \<notin> {None, Some []}"
    by (simp add: demo_environ_def)
  from missing_environment_aborts [where environ = demo_environ and sdk = demo_sdk
      and stdin = "[Inr ''hello'']"] endpoint deployment
  have "main_conversation demo_sdk demo_environ [Inr ''hello''] =
     ([print ''Error: AZURE_OPENAI_DEPLOYMENT_NAME environment variable not set'',
       print (''Set it with: export AZURE_OPENAI_DEPLOYMENT_NAME='gpt-4o-mini'' @ [CHR 0x27])],
      Inr 1)"
    and "ConstructClient \<notin> set (fst (main_basic demo_sdk demo_environ))"
    by blast+
  moreover from missing_environment_aborts [where environ = Map.empty and sdk = demo_sdk] unset
  have "main_tool demo_sdk Map.empty =
     ([print ''Error: AZURE_OPENAI_ENDPOINT environment variable not set''], None)"
    by blast
  moreover from missing_environment_aborts
      [where environ = "demo_environ(''AZURE_OPENAI_DEPLOYMENT_NAME'' \<mapsto> ''gpt-4o-mini'')"
        and sdk = demo_sdk] both
  have "hd (fst (main_tool demo_sdk (demo_environ(''AZURE_OPENAI_DEPLOYMENT_NAME'' \<mapsto> ''gpt-4o-mini'')))) =
       ConstructClient"
    by blast
  ultimately show ?thesis
    by blast
qed

end
